theory Spec2Isabelle
  imports Main "HOL-Library.Sublist"
begin

section \<open>Argument parser (src/utils/argumentParser.js)\<close>

text \<open>
  The configuration object built by \<open>ArgumentParser.parse\<close>. All four fields are
  JavaScript strings or booleans; strings are modelled as \<open>string\<close>.
\<close>

record config =
  projectName :: string
  template :: string
  gitInit :: bool
  author :: string

text \<open>
  Error codes of the Node.js file-system calls that the tool can run into, and the
  errors thrown by the tool itself (every \<open>throw new Error(...)\<close> of the source is
  one constructor; an exception of \<open>fs.mkdirSync\<close> or \<open>fs.writeFileSync\<close> is
  \<open>FilesystemWriteFailure\<close>).
\<close>

datatype errno = ENOENT | ENOTDIR | EISDIR | EEXIST | EACCES

datatype error =
    MissingProjectName
  | MissingFlagValue string
  | InvalidName
  | DirectoryExists string
  | UnknownTemplate string
  | FilesystemWriteFailure errno "string list"

text \<open>\<open>arg.startsWith('-')\<close>\<close>

definition startsWithDash :: "string \<Rightarrow> bool" where
  "startsWithDash arg = (case arg of [] \<Rightarrow> False | c # _ \<Rightarrow> c = CHR ''-'')"

text \<open>
  \<open>String.prototype.toLowerCase\<close> belongs to the JavaScript runtime and follows the
  Unicode case mapping, which is not modelled: the parser takes it as a parameter,
  \<open>toLowerCase\<close>, and what is proved of the parser holds for every such function.
  \<open>asciiToLowerCase\<close> is what it computes on a string of ASCII characters (the letters
  \<open>A\<close> to \<open>Z\<close> become \<open>a\<close> to \<open>z\<close>, every other ASCII character stays); it is used
  in the examples, on ASCII tokens only.
\<close>

definition asciiToLowerChar :: "char \<Rightarrow> char" where
  "asciiToLowerChar c =
     (case map_of (zip ''ABCDEFGHIJKLMNOPQRSTUVWXYZ'' ''abcdefghijklmnopqrstuvwxyz'') c of
        Some l \<Rightarrow> l
      | None \<Rightarrow> c)"

definition asciiToLowerCase :: "string \<Rightarrow> string" where
  "asciiToLowerCase s = map asciiToLowerChar s"

text \<open>
  The \<open>for\<close> loop of \<open>parse\<close> with its \<open>switch\<close>. The loop reads \<open>args[i]\<close> and
  \<open>args[i + 1]\<close> only, so it is a recursion on the remaining tokens: \<open>arg\<close> is
  \<open>args[i]\<close>, the head of \<open>rest\<close> is \<open>args[i + 1]\<close> (absent when \<open>rest\<close> is empty,
  where JavaScript reads \<open>undefined\<close>), and the extra \<open>i++\<close> after a value drops it.
  \<open>!args[i + 1]\<close> holds for \<open>undefined\<close> and for the empty string.
  \<open>args[i + 1].toLowerCase()\<close> is \<open>toLowerCase v\<close>, with the function of the runtime
  as the first argument.
\<close>

fun parseFlags :: "(string \<Rightarrow> string) \<Rightarrow> string list \<Rightarrow> config \<Rightarrow> error + config" where
  "parseFlags toLowerCase [] config = Inr config"
| "parseFlags toLowerCase (arg # rest) config =
     (if arg = ''--template'' \<or> arg = ''-t'' then
        (case rest of
           [] \<Rightarrow> Inl (MissingFlagValue ''--template'')
         | v # rest' \<Rightarrow>
             if v = [] \<or> startsWithDash v then Inl (MissingFlagValue ''--template'')
             else parseFlags toLowerCase rest' (config\<lparr>template := toLowerCase v\<rparr>))
      else if arg = ''--git'' \<or> arg = ''-g'' then
        parseFlags toLowerCase rest (config\<lparr>gitInit := True\<rparr>)
      else if arg = ''--author'' \<or> arg = ''-a'' then
        (case rest of
           [] \<Rightarrow> Inl (MissingFlagValue ''--author'')
         | v # rest' \<Rightarrow>
             if v = [] \<or> startsWithDash v then Inl (MissingFlagValue ''--author'')
             else parseFlags toLowerCase rest' (config\<lparr>author := v\<rparr>))
      else parseFlags toLowerCase rest config)"

text \<open>
  \<open>parse\<close>: the first token that does not start with \<open>-\<close> is the project name
  (\<open>args.find\<close> gives \<open>undefined\<close> when there is none, and \<open>!config.projectName\<close>
  also holds for the empty string), then the flags are read from the first token on.
\<close>

definition parse :: "(string \<Rightarrow> string) \<Rightarrow> string list \<Rightarrow> error + config" where
  "parse toLowerCase args =
     (case find (\<lambda>arg. \<not> startsWithDash arg) args of
        None \<Rightarrow> Inl MissingProjectName
      | Some name \<Rightarrow>
          if name = [] then Inl MissingProjectName
          else parseFlags toLowerCase args
                 \<lparr>projectName = name, template = ''basic'', gitInit = False, author = ''''\<rparr>)"

text \<open>
  The \<open>message\<close> of each thrown error, as the source writes it. The message of an
  exception of the file-system calls is composed by Node; only the error code it starts
  with is kept.
\<close>

fun errnoName :: "errno \<Rightarrow> string" where
  "errnoName ENOENT = ''ENOENT''"
| "errnoName ENOTDIR = ''ENOTDIR''"
| "errnoName EISDIR = ''EISDIR''"
| "errnoName EEXIST = ''EEXIST''"
| "errnoName EACCES = ''EACCES''"

fun message :: "error \<Rightarrow> string" where
  "message MissingProjectName =
     ''Project name is required. Usage: create-proj <project-name> [options]''"
| "message (MissingFlagValue flag) = flag @ '' flag requires a value''"
| "message InvalidName =
     ''Project name can only contain letters, numbers, hyphens, and underscores''"
| "message (DirectoryExists name) =
     ''Directory \"'' @ name @ ''\" already exists. Please choose a different name.''"
| "message (UnknownTemplate t) =
     ''Invalid template \"'' @ t @ ''\". Valid templates: web, api, cli, basic, fullstack''"
| "message (FilesystemWriteFailure code p) = errnoName code"


section \<open>The file system and the process, as the tool uses them\<close>

text \<open>
  A path is the list of its components, from the root of the file system down;
  \<open>path.join(p, 'a', 'b')\<close> appends the components \<open>a\<close> and \<open>b\<close>. This is what
  Node's \<open>path.join\<close> computes when \<open>p\<close> is a normalised path and the segments hold
  no separator and are neither \<open>.\<close> nor \<open>..\<close>; every segment the tool passes is a
  literal of that kind, or a project name that passed \<open>validateConfig\<close>.
\<close>

type_synonym path = "string list"

definition pathJoin :: "path \<Rightarrow> string list \<Rightarrow> path" where
  "pathJoin p segments = p @ segments"

text \<open>
  The value a manifest is serialised from: the argument of \<open>JSON.stringify\<close>. An
  object is the list of its properties in the order the object literal writes them.
\<close>

datatype json = JString string | JArray "json list" | JObject "(string \<times> json) list"

text \<open>
  What \<open>writeFile\<close> is given as its content. \<open>Json j\<close> is
  \<open>JSON.stringify(j, null, 2)\<close>. \<open>Text vs\<close> is one of the template literals of the
  source; they are long fixed texts, and only the values they interpolate from the
  options are kept, in \<open>vs\<close>.
\<close>

datatype content = Text "string list" | Json json

datatype node = Dir | File content

type_synonym filesystem = "path \<Rightarrow> node option"

text \<open>\<open>fs.existsSync\<close>; the empty path is the root of the file system.\<close>

definition existsSync :: "filesystem \<Rightarrow> path \<Rightarrow> bool" where
  "existsSync fs p = (p = [] \<or> fs p \<noteq> None)"

definition isDirectory :: "filesystem \<Rightarrow> path \<Rightarrow> bool" where
  "isDirectory fs p = (p = [] \<or> fs p = Some Dir)"

text \<open>
  \<open>fs.mkdirSync(p, { recursive: true })\<close> walks down \<open>p\<close> and creates each
  component that is missing. It throws when a component exists as a file, or when the
  operating system refuses the creation (\<open>deny\<close>: permissions, a full disk); what it
  created before stays. \<open>walked\<close> is the part of the path already walked.
\<close>

fun mkdirs ::
  "(path \<Rightarrow> bool) \<Rightarrow> path \<Rightarrow> string list \<Rightarrow> filesystem \<Rightarrow> error option \<times> filesystem"
where
  "mkdirs deny walked [] fs = (None, fs)"
| "mkdirs deny walked (seg # segs) fs =
     (case fs (walked @ [seg]) of
        Some Dir \<Rightarrow> mkdirs deny (walked @ [seg]) segs fs
      | Some (File c) \<Rightarrow>
          (Some (FilesystemWriteFailure (if segs = [] then EEXIST else ENOTDIR)
                   (walked @ [seg])), fs)
      | None \<Rightarrow>
          if deny (walked @ [seg])
          then (Some (FilesystemWriteFailure EACCES (walked @ [seg])), fs)
          else mkdirs deny (walked @ [seg]) segs (fs(walked @ [seg] \<mapsto> Dir)))"

definition mkdirSync ::
  "(path \<Rightarrow> bool) \<Rightarrow> path \<Rightarrow> filesystem \<Rightarrow> error option \<times> filesystem"
where
  "mkdirSync deny p fs = mkdirs deny [] p fs"

text \<open>
  \<open>fs.writeFileSync(p, content, 'utf8')\<close> creates or overwrites the file \<open>p\<close>. It
  throws when the parent of \<open>p\<close> is not a directory, when \<open>p\<close> is a directory, or
  when the operating system refuses the write.
\<close>

definition writeFileSync ::
  "(path \<Rightarrow> bool) \<Rightarrow> path \<Rightarrow> content \<Rightarrow> filesystem \<Rightarrow> error option \<times> filesystem"
where
  "writeFileSync deny p c fs =
     (if p = [] then (Some (FilesystemWriteFailure EISDIR p), fs)
      else if \<not> existsSync fs (butlast p) then (Some (FilesystemWriteFailure ENOENT p), fs)
      else if \<not> isDirectory fs (butlast p) then (Some (FilesystemWriteFailure ENOTDIR p), fs)
      else if fs p = Some Dir then (Some (FilesystemWriteFailure EISDIR p), fs)
      else if deny p then (Some (FilesystemWriteFailure EACCES p), fs)
      else (None, fs(p \<mapsto> File c)))"

section \<open>Template generator (TemplateGenerator)\<close>

text \<open>\<open>createDir\<close>: creates the directory unless something exists at the path.\<close>

definition createDir ::
  "(path \<Rightarrow> bool) \<Rightarrow> path \<Rightarrow> filesystem \<Rightarrow> error option \<times> filesystem"
where
  "createDir deny dirPath fs =
     (if \<not> existsSync fs dirPath then mkdirSync deny dirPath fs else (None, fs))"

definition writeFile ::
  "(path \<Rightarrow> bool) \<Rightarrow> path \<Rightarrow> content \<Rightarrow> filesystem \<Rightarrow> error option \<times> filesystem"
where
  "writeFile deny filePath c fs = writeFileSync deny filePath c fs"

text \<open>
  Each \<open>generate...Template\<close> method is a straight sequence of \<open>this.createDir\<close> and
  \<open>this.writeFile\<close> calls. The methods below return that sequence, in the order of
  the source; \<open>perform\<close> runs it, and stops at the first call that throws.
\<close>

datatype step = CreateDir path | WriteFile path content

fun target :: "step \<Rightarrow> path" where
  "target (CreateDir p) = p"
| "target (WriteFile p c) = p"

fun performStep ::
  "(path \<Rightarrow> bool) \<Rightarrow> step \<Rightarrow> filesystem \<Rightarrow> error option \<times> filesystem"
where
  "performStep deny (CreateDir p) fs = createDir deny p fs"
| "performStep deny (WriteFile p c) fs = writeFile deny p c fs"

fun perform ::
  "(path \<Rightarrow> bool) \<Rightarrow> step list \<Rightarrow> filesystem \<Rightarrow> error option \<times> filesystem"
where
  "perform deny [] fs = (None, fs)"
| "perform deny (s # steps) fs =
     (case performStep deny s fs of
        (Some e, fs') \<Rightarrow> (Some e, fs')
      | (None, fs') \<Rightarrow> perform deny steps fs')"

text \<open>
  The \<open>options\<close> object \<open>{ projectName, author }\<close>. \<open>author\<close> may be left
  undefined by a caller, which is \<open>None\<close>; \<open>author || d\<close> is \<open>d\<close> for an undefined
  and for an empty author.
\<close>

type_synonym options = "string \<times> string option"

definition orElse :: "string option \<Rightarrow> string \<Rightarrow> string" where
  "orElse value d = (case value of None \<Rightarrow> d | Some a \<Rightarrow> if a = [] then d else a)"


text \<open>
  \<open>generateReadme(projectName, template, author)\<close>: a template literal over the
  project name, the texts chosen by the template name, and \<open>author || 'Your Name'\<close>
  (and the date of the day, which is left out).
\<close>

definition generateReadme :: "string \<Rightarrow> string \<Rightarrow> string option \<Rightarrow> content" where
  "generateReadme name tmpl auth = Text [name, tmpl, orElse auth ''Your Name'']"

definition generateBasicTemplate :: "path \<Rightarrow> options \<Rightarrow> step list" where
  "generateBasicTemplate projectPath options =
     (\<lambda>(projectName, author).
      [CreateDir (pathJoin projectPath [''src'']),
       CreateDir (pathJoin projectPath [''utils'']),
       CreateDir (pathJoin projectPath [''tests'']),
       WriteFile (pathJoin projectPath [''src'', ''index.js'']) (Text [projectName]),
       WriteFile (pathJoin projectPath [''utils'', ''helpers.js'']) (Text [projectName]),
       WriteFile (pathJoin projectPath [''README.md''])
         (generateReadme projectName ''basic'' author),
       WriteFile (pathJoin projectPath [''.gitignore'']) (Text []),
       WriteFile (pathJoin projectPath [''package.json''])
         (Json (JObject
           [(''name'', JString projectName),
            (''version'', JString ''1.0.0''),
            (''description'', JString (projectName @ '' - A basic project'')),
            (''main'', JString ''src/index.js''),
            (''scripts'', JObject
               [(''start'', JString ''node src/index.js''),
                (''test'', JString ''echo \"Error: no test specified\" && exit 1'')]),
            (''keywords'', JArray []),
            (''author'', JString (orElse author '''')),
            (''license'', JString ''MIT'')]))]) options"

definition generateWebTemplate :: "path \<Rightarrow> options \<Rightarrow> step list" where
  "generateWebTemplate projectPath options =
     (\<lambda>(projectName, author).
      [CreateDir (pathJoin projectPath [''src'']),
       CreateDir (pathJoin projectPath [''src'', ''css'']),
       CreateDir (pathJoin projectPath [''src'', ''js'']),
       CreateDir (pathJoin projectPath [''public'']),
       CreateDir (pathJoin projectPath [''assets'']),
       WriteFile (pathJoin projectPath [''src'', ''index.html''])
         (Text [projectName, orElse author ''Your Name'']),
       WriteFile (pathJoin projectPath [''src'', ''css'', ''style.css'']) (Text [projectName]),
       WriteFile (pathJoin projectPath [''src'', ''js'', ''app.js'']) (Text [projectName]),
       WriteFile (pathJoin projectPath [''README.md''])
         (generateReadme projectName ''web'' author),
       WriteFile (pathJoin projectPath [''.gitignore'']) (Text []),
       WriteFile (pathJoin projectPath [''package.json''])
         (Json (JObject
           [(''name'', JString projectName),
            (''version'', JString ''1.0.0''),
            (''description'', JString (projectName @ '' - A web application'')),
            (''main'', JString ''src/index.html''),
            (''scripts'', JObject
               [(''start'', JString ''echo \"Open src/index.html in your browser\"'')]),
            (''keywords'', JArray
               [JString ''web'', JString ''html'', JString ''css'', JString ''javascript'']),
            (''author'', JString (orElse author '''')),
            (''license'', JString ''MIT'')]))]) options"

definition generateApiTemplate :: "path \<Rightarrow> options \<Rightarrow> step list" where
  "generateApiTemplate projectPath options =
     (\<lambda>(projectName, author).
      [CreateDir (pathJoin projectPath [''src'']),
       CreateDir (pathJoin projectPath [''src'', ''routes'']),
       CreateDir (pathJoin projectPath [''src'', ''controllers'']),
       CreateDir (pathJoin projectPath [''src'', ''models'']),
       CreateDir (pathJoin projectPath [''src'', ''middleware'']),
       CreateDir (pathJoin projectPath [''utils'']),
       CreateDir (pathJoin projectPath [''config'']),
       WriteFile (pathJoin projectPath [''src'', ''server.js'']) (Text [projectName]),
       WriteFile (pathJoin projectPath [''src'', ''routes'', ''index.js'']) (Text []),
       WriteFile (pathJoin projectPath [''src'', ''controllers'', ''index.js'']) (Text []),
       WriteFile (pathJoin projectPath [''config'', ''config.js'']) (Text []),
       WriteFile (pathJoin projectPath [''README.md''])
         (generateReadme projectName ''api'' author),
       WriteFile (pathJoin projectPath [''.gitignore'']) (Text []),
       WriteFile (pathJoin projectPath [''package.json''])
         (Json (JObject
           [(''name'', JString projectName),
            (''version'', JString ''1.0.0''),
            (''description'', JString (projectName @ '' - REST API'')),
            (''main'', JString ''src/server.js''),
            (''scripts'', JObject
               [(''start'', JString ''node src/server.js''),
                (''dev'', JString ''node src/server.js'')]),
            (''keywords'', JArray [JString ''api'', JString ''rest'', JString ''backend'']),
            (''author'', JString (orElse author '''')),
            (''license'', JString ''MIT'')]))]) options"

definition generateCliTemplate :: "path \<Rightarrow> options \<Rightarrow> step list" where
  "generateCliTemplate projectPath options =
     (\<lambda>(projectName, author).
      [CreateDir (pathJoin projectPath [''src'']),
       CreateDir (pathJoin projectPath [''utils'']),
       CreateDir (pathJoin projectPath [''commands'']),
       WriteFile (pathJoin projectPath [''src'', ''cli.js'']) (Text [projectName]),
       WriteFile (pathJoin projectPath [''commands'', ''index.js'']) (Text []),
       WriteFile (pathJoin projectPath [''README.md''])
         (generateReadme projectName ''cli'' author),
       WriteFile (pathJoin projectPath [''.gitignore'']) (Text []),
       WriteFile (pathJoin projectPath [''package.json''])
         (Json (JObject
           [(''name'', JString projectName),
            (''version'', JString ''1.0.0''),
            (''description'', JString (projectName @ '' - Command-line tool'')),
            (''main'', JString ''src/cli.js''),
            (''bin'', JObject [(projectName, JString ''./src/cli.js'')]),
            (''scripts'', JObject [(''start'', JString ''node src/cli.js'')]),
            (''keywords'', JArray
               [JString ''cli'', JString ''command-line'', JString ''tool'']),
            (''author'', JString (orElse author '''')),
            (''license'', JString ''MIT'')]))]) options"


definition generateFullstackTemplate :: "path \<Rightarrow> options \<Rightarrow> step list" where
  "generateFullstackTemplate projectPath options =
     (\<lambda>(projectName, author).
      [CreateDir (pathJoin projectPath [''frontend'']),
       CreateDir (pathJoin projectPath [''frontend'', ''src'']),
       CreateDir (pathJoin projectPath [''frontend'', ''src'', ''components'']),
       CreateDir (pathJoin projectPath [''frontend'', ''src'', ''pages'']),
       CreateDir (pathJoin projectPath [''frontend'', ''src'', ''styles'']),
       CreateDir (pathJoin projectPath [''frontend'', ''src'', ''services'']),
       CreateDir (pathJoin projectPath [''frontend'', ''public'']),
       WriteFile (pathJoin projectPath [''frontend'', ''src'', ''App.js'']) (Text [projectName]),
       WriteFile (pathJoin projectPath [''frontend'', ''src'', ''services'', ''api.js''])
         (Text []),
       WriteFile (pathJoin projectPath [''frontend'', ''src'', ''components'', ''Header.js''])
         (Text [projectName]),
       WriteFile (pathJoin projectPath [''frontend'', ''src'', ''pages'', ''UsersPage.js''])
         (Text []),
       WriteFile (pathJoin projectPath [''frontend'', ''public'', ''index.html''])
         (Text [projectName]),
       WriteFile (pathJoin projectPath [''frontend'', ''src'', ''styles'', ''main.css''])
         (Text [projectName]),
       WriteFile (pathJoin projectPath [''frontend'', ''server.js'']) (Text [projectName]),
       WriteFile (pathJoin projectPath [''frontend'', ''package.json''])
         (Json (JObject
           [(''name'', JString (projectName @ ''-frontend'')),
            (''version'', JString ''1.0.0''),
            (''description'', JString (projectName @ '' - Frontend Application'')),
            (''main'', JString ''server.js''),
            (''scripts'', JObject
               [(''dev'', JString ''node server.js''),
                (''start'', JString ''node server.js'')]),
            (''keywords'', JArray [JString ''frontend'', JString ''fullstack'']),
            (''author'', JString (orElse author '''')),
            (''license'', JString ''MIT'')])),
       CreateDir (pathJoin projectPath [''backend'']),
       CreateDir (pathJoin projectPath [''backend'', ''routes'']),
       CreateDir (pathJoin projectPath [''backend'', ''controllers'']),
       CreateDir (pathJoin projectPath [''backend'', ''models'']),
       CreateDir (pathJoin projectPath [''backend'', ''middleware'']),
       CreateDir (pathJoin projectPath [''backend'', ''config'']),
       WriteFile (pathJoin projectPath [''backend'', ''server.js'']) (Text [projectName]),
       WriteFile (pathJoin projectPath [''backend'', ''routes'', ''index.js'']) (Text []),
       WriteFile (pathJoin projectPath [''backend'', ''controllers'', ''userController.js''])
         (Text []),
       WriteFile (pathJoin projectPath [''backend'', ''models'', ''User.js'']) (Text []),
       WriteFile (pathJoin projectPath [''backend'', ''config'', ''db.js''])
         (Text [projectName]),
       WriteFile (pathJoin projectPath [''backend'', ''.env'']) (Text [projectName]),
       WriteFile (pathJoin projectPath [''backend'', ''package.json''])
         (Json (JObject
           [(''name'', JString (projectName @ ''-backend'')),
            (''version'', JString ''1.0.0''),
            (''description'', JString (projectName @ '' - Backend API'')),
            (''main'', JString ''server.js''),
            (''scripts'', JObject
               [(''dev'', JString ''node server.js''),
                (''start'', JString ''node server.js'')]),
            (''keywords'', JArray
               [JString ''backend'', JString ''api'', JString ''fullstack'']),
            (''author'', JString (orElse author '''')),
            (''license'', JString ''MIT'')])),
       WriteFile (pathJoin projectPath [''README.md''])
         (Text [projectName, orElse author ''Your Name'']),
       WriteFile (pathJoin projectPath [''.gitignore'']) (Text [])]) options"

text \<open>
  The \<open>switch\<close> of \<open>generate\<close>: \<open>basic\<close> shares its branch with \<open>default\<close>, so
  every other template name gives the basic layout.
\<close>

definition generateCalls :: "path \<Rightarrow> string \<Rightarrow> options \<Rightarrow> step list" where
  "generateCalls projectPath tmpl options =
     (if tmpl = ''web'' then generateWebTemplate projectPath options
      else if tmpl = ''api'' then generateApiTemplate projectPath options
      else if tmpl = ''cli'' then generateCliTemplate projectPath options
      else if tmpl = ''fullstack'' then generateFullstackTemplate projectPath options
      else generateBasicTemplate projectPath options)"

definition generate ::
  "(path \<Rightarrow> bool) \<Rightarrow> path \<Rightarrow> string \<Rightarrow> options \<Rightarrow> filesystem
     \<Rightarrow> error option \<times> filesystem"
where
  "generate deny projectPath tmpl options fs =
     perform deny (generateCalls projectPath tmpl options) fs"

section \<open>Orchestrator (src/index.js)\<close>

text \<open>
  What the process can see and change: the file system, its working directory, the paths
  the operating system refuses to create or write, and the lines printed so far through
  the logger (oldest first). A printed line keeps the logger method and the text;
  colour codes, leading newlines and the leading check mark, cross or warning sign of
  some messages are left out.
\<close>

datatype line = Info string | Success string | Warning string | Err string | HelpText

record world =
  files :: filesystem
  cwd :: path
  denied :: "path \<Rightarrow> bool"
  printed :: "line list"

definition log :: "line \<Rightarrow> world \<Rightarrow> world" where
  "log l w = w\<lparr>printed := printed w @ [l]\<rparr>"

text \<open>\<open>/^[a-zA-Z0-9_-]+$/.test(projectName)\<close>\<close>

definition nameChar :: "char \<Rightarrow> bool" where
  "nameChar c =
     (c \<in> set (''abcdefghijklmnopqrstuvwxyz'' @ ''ABCDEFGHIJKLMNOPQRSTUVWXYZ'' @
               ''0123456789'' @ ''_-''))"

definition nameRegexTest :: "string \<Rightarrow> bool" where
  "nameRegexTest s = (s \<noteq> [] \<and> list_all nameChar s)"

definition validTemplates :: "string list" where
  "validTemplates = [''web'', ''api'', ''cli'', ''basic'', ''fullstack'']"

definition validateConfig :: "config \<Rightarrow> world \<Rightarrow> error + unit" where
  "validateConfig config w =
     (if \<not> nameRegexTest (projectName config) then Inl InvalidName
      else if existsSync (files w) (pathJoin (cwd w) [projectName config])
        then Inl (DirectoryExists (projectName config))
      else if template config \<notin> set validTemplates
        then Inl (UnknownTemplate (template config))
      else Inr ())"


text \<open>
  The \<open>git\<close> commands run in a child process, which is not part of the program: a
  shell \<open>sh\<close> is any function that, for a command line, the working directory and
  the file system, says whether the command succeeded (\<open>execSync\<close> throws when it did
  not) and what the file system is afterwards. A child process cannot change the working
  directory of the process that started it.
\<close>

type_synonym shell = "string \<Rightarrow> path \<Rightarrow> filesystem \<Rightarrow> bool \<times> filesystem"

definition execSync :: "shell \<Rightarrow> string \<Rightarrow> world \<Rightarrow> bool \<times> world" where
  "execSync sh command w =
     (case sh command (cwd w) (files w) of (ok, fs') \<Rightarrow> (ok, w\<lparr>files := fs'\<rparr>))"

text \<open>\<open>process.chdir\<close> throws when the path is not a directory (\<open>None\<close>).\<close>

definition chdir :: "path \<Rightarrow> world \<Rightarrow> world option" where
  "chdir p w = (if isDirectory (files w) p then Some (w\<lparr>cwd := p\<rparr>) else None)"

text \<open>The \<open>catch\<close> block of \<open>initGit\<close>.\<close>

definition gitFailed :: "world \<Rightarrow> world" where
  "gitFailed w = log (Warning ''Git initialization failed. Make sure Git is installed.'') w"

text \<open>
  \<open>initGit\<close>: everything is inside one \<open>try\<close>, so each call that throws leads to
  the \<open>catch\<close> block, with the world as it is at that point.
\<close>

definition initGit :: "shell \<Rightarrow> path \<Rightarrow> string \<Rightarrow> world \<Rightarrow> world" where
  "initGit sh projectPath name w =
     (let w0 = log (Info ''Initializing Git repository...'') w;
          originalCwd = cwd w0
      in case chdir projectPath w0 of
           None \<Rightarrow> gitFailed w0
         | Some w1 \<Rightarrow>
        (case execSync sh ''git init'' w1 of
           (False, w2) \<Rightarrow> gitFailed w2
         | (True, w2) \<Rightarrow>
        (case execSync sh ''git add .'' w2 of
           (False, w3) \<Rightarrow> gitFailed w3
         | (True, w3) \<Rightarrow>
        (case execSync sh
                ''git commit -m \"Initial commit: Project scaffolded by create-project-cli\"''
                w3 of
           (False, w4) \<Rightarrow> gitFailed w4
         | (True, w4) \<Rightarrow>
        (case chdir originalCwd w4 of
           None \<Rightarrow> gitFailed w4
         | Some w5 \<Rightarrow> log (Success ''Git repository initialized'') w5)))))"

text \<open>
  \<open>createProject\<close>. The author handed to the generator is the string of the
  configuration. An exception of \<open>mkdirSync\<close> or of the generator leaves the method
  with the file system as it is at that point.
\<close>

definition createProject :: "shell \<Rightarrow> config \<Rightarrow> world \<Rightarrow> error option \<times> world" where
  "createProject sh config w =
     (let projectPath = pathJoin (cwd w) [projectName config];
          w0 = log (Info (''Creating '' @ template config @ '' project: '' @
                          projectName config @ ''...'')) w
      in case mkdirSync (denied w0) projectPath (files w0) of
           (Some e, fs1) \<Rightarrow> (Some e, w0\<lparr>files := fs1\<rparr>)
         | (None, fs1) \<Rightarrow>
        (case generate (denied w0) projectPath (template config)
                (projectName config, Some (author config)) fs1 of
           (Some e, fs2) \<Rightarrow> (Some e, w0\<lparr>files := fs2\<rparr>)
         | (None, fs2) \<Rightarrow>
             (let w2 = w0\<lparr>files := fs2\<rparr>;
                  w3 = (if gitInit config
                        then initGit sh projectPath (projectName config) w2 else w2)
              in (None, log (Success ''Project structure created'') w3))))"

text \<open>The \<open>catch\<close> block of \<open>run\<close>: print the error, \<open>process.exit(1)\<close>.\<close>

definition fatal :: "error \<Rightarrow> world \<Rightarrow> nat \<times> world" where
  "fatal e w = (1, log (Err (''Error: '' @ message e)) w)"

text \<open>The lines \<open>run\<close> prints after \<open>createProject\<close> has returned.\<close>

definition report :: "config \<Rightarrow> line list" where
  "report config =
     [Success (''Project \"'' @ projectName config @ ''\" created successfully!''),
      Info ''Next steps:'',
      Info (''  cd '' @ projectName config)] @
     (if template config = ''web'' \<or> template config = ''api''
      then [Info ''  npm install'', Info ''  npm start'']
      else [Info ''  Start coding!''])"

text \<open>
  \<open>run\<close>, from the argument list \<open>process.argv.slice(2)\<close>. The result is the exit
  code of the process and the world it leaves. \<open>toLowerCase\<close> is the function of the
  runtime that \<open>parse\<close> calls, and \<open>sh\<close> the shell that \<open>initGit\<close> calls.
\<close>

definition run ::
  "(string \<Rightarrow> string) \<Rightarrow> shell \<Rightarrow> string list \<Rightarrow> world \<Rightarrow> nat \<times> world"
where
  "run toLowerCase sh args w =
     (if args = [] \<or> ''--help'' \<in> set args \<or> ''-h'' \<in> set args
      then (0, log HelpText w)
      else case parse toLowerCase args of
             Inl e \<Rightarrow> fatal e w
           | Inr config \<Rightarrow>
          (case validateConfig config w of
             Inl e \<Rightarrow> fatal e w
           | Inr u \<Rightarrow>
          (case createProject sh config w of
             (Some e, w1) \<Rightarrow> fatal e w1
           | (None, w1) \<Rightarrow> (0, w1\<lparr>printed := printed w1 @ report config\<rparr>))))"


section \<open>Notions used to state the properties\<close>

text \<open>The flags that take a value, and the name under which \<open>parse\<close> reports them.\<close>

definition isValueFlag :: "string \<Rightarrow> bool" where
  "isValueFlag arg =
     (arg = ''--template'' \<or> arg = ''-t'' \<or> arg = ''--author'' \<or> arg = ''-a'')"



definition rejectsValue :: "string list \<Rightarrow> nat \<Rightarrow> bool" where
  "rejectsValue args i =
     (i < length args \<and> isValueFlag (args ! i) \<and>
      (length args \<le> Suc i \<or> args ! Suc i = [] \<or> startsWithDash (args ! Suc i)))"


text \<open>The directories a sequence of calls creates and the files it writes, in order.\<close>

fun createdDirs :: "step list \<Rightarrow> path list" where
  "createdDirs [] = []"
| "createdDirs (CreateDir p # steps) = p # createdDirs steps"
| "createdDirs (WriteFile p c # steps) = createdDirs steps"

fun writtenFiles :: "step list \<Rightarrow> path list" where
  "writtenFiles [] = []"
| "writtenFiles (CreateDir p # steps) = writtenFiles steps"
| "writtenFiles (WriteFile p c # steps) = p # writtenFiles steps"

text \<open>
  The manifests among the files written: the objects serialised into a file named
  \<open>package.json\<close>; and the value of a property of an object.
\<close>

fun manifests :: "step list \<Rightarrow> json list" where
  "manifests [] = []"
| "manifests (CreateDir p # steps) = manifests steps"
| "manifests (WriteFile p (Text vs) # steps) = manifests steps"
| "manifests (WriteFile p (Json j) # steps) =
     (if p \<noteq> [] \<and> last p = ''package.json'' then j # manifests steps
      else manifests steps)"

fun field :: "string \<Rightarrow> json \<Rightarrow> json option" where
  "field k (JObject props) = map_of props k"
| "field k (JString s) = None"
| "field k (JArray js) = None"

text \<open>
  The file a relative path written with \<open>/\<close> points at, from the directory of the
  manifest: its components, without the empty ones and \<open>.\<close>.
\<close>

fun splitPath :: "string \<Rightarrow> string list" where
  "splitPath [] = [[]]"
| "splitPath (c # cs) =
     (if c = CHR ''/'' then [] # splitPath cs
      else (case splitPath cs of [] \<Rightarrow> [[c]] | s # ss \<Rightarrow> (c # s) # ss))"

definition pointsAt :: "string \<Rightarrow> path" where
  "pointsAt s = filter (\<lambda>seg. seg \<noteq> [] \<and> seg \<noteq> ''.'') (splitPath s)"

text \<open>
  The table of section 4.3 of the specification, column "Directories created", with the
  brace notation written out, and column "Files written", each entry under the path
  where the generator puts it: for \<open>basic\<close> the src entry stub, the utils helper stub,
  the manifest, the ignore file and the README; for \<open>web\<close> the HTML page, the CSS
  stylesheet, the JS interaction stub, manifest, ignore file, README; for \<open>api\<close> the
  HTTP server entry, route dispatcher, controller handlers, config module, manifest,
  ignore file, README; for \<open>cli\<close> the CLI entry, the command module, manifest, ignore
  file, README; for \<open>fullstack\<close> the two manifests, the frontend app, service,
  component, page, server, CSS and HTML files, the backend server, routes, controller,
  in-memory model, config and .env, and the root README and ignore file.
\<close>

definition spec_table_directories :: "string \<Rightarrow> path list" where
  "spec_table_directories tmpl =
     (if tmpl = ''basic'' then [[''src''], [''utils''], [''tests'']]
      else if tmpl = ''web'' then
        [[''src''], [''src'', ''css''], [''src'', ''js''], [''public''], [''assets'']]
      else if tmpl = ''api'' then
        [[''src''], [''src'', ''routes''], [''src'', ''controllers''], [''src'', ''models''],
         [''src'', ''middleware''], [''utils''], [''config'']]
      else if tmpl = ''cli'' then [[''src''], [''utils''], [''commands'']]
      else if tmpl = ''fullstack'' then
        [[''frontend''], [''frontend'', ''src''], [''frontend'', ''src'', ''components''],
         [''frontend'', ''src'', ''pages''], [''frontend'', ''src'', ''styles''],
         [''frontend'', ''src'', ''services''], [''frontend'', ''public''],
         [''backend''], [''backend'', ''routes''], [''backend'', ''controllers''],
         [''backend'', ''models''], [''backend'', ''middleware''], [''backend'', ''config'']]
      else [])"

definition spec_table_files :: "string \<Rightarrow> path list" where
  "spec_table_files tmpl =
     (if tmpl = ''basic'' then
        [[''src'', ''index.js''], [''utils'', ''helpers.js''], [''package.json''],
         [''.gitignore''], [''README.md'']]
      else if tmpl = ''web'' then
        [[''src'', ''index.html''], [''src'', ''css'', ''style.css''],
         [''src'', ''js'', ''app.js''], [''package.json''], [''.gitignore''], [''README.md'']]
      else if tmpl = ''api'' then
        [[''src'', ''server.js''], [''src'', ''routes'', ''index.js''],
         [''src'', ''controllers'', ''index.js''], [''config'', ''config.js''],
         [''package.json''], [''.gitignore''], [''README.md'']]
      else if tmpl = ''cli'' then
        [[''src'', ''cli.js''], [''commands'', ''index.js''], [''package.json''],
         [''.gitignore''], [''README.md'']]
      else if tmpl = ''fullstack'' then
        [[''frontend'', ''package.json''], [''backend'', ''package.json''],
         [''frontend'', ''src'', ''App.js''], [''frontend'', ''src'', ''services'', ''api.js''],
         [''frontend'', ''src'', ''components'', ''Header.js''],
         [''frontend'', ''src'', ''pages'', ''UsersPage.js''], [''frontend'', ''server.js''],
         [''frontend'', ''src'', ''styles'', ''main.css''],
         [''frontend'', ''public'', ''index.html''],
         [''backend'', ''server.js''], [''backend'', ''routes'', ''index.js''],
         [''backend'', ''controllers'', ''userController.js''],
         [''backend'', ''models'', ''User.js''], [''backend'', ''config'', ''db.js''],
         [''backend'', ''.env''], [''README.md''], [''.gitignore'']]
      else [])"

text \<open>
  The three commands of \<open>initGit\<close>, and whether all of them succeed when run in this
  order in directory \<open>dir\<close>, each on the file system the one before left.
\<close>

definition gitCommands :: "string list" where
  "gitCommands =
     [''git init'', ''git add .'',
      ''git commit -m \"Initial commit: Project scaffolded by create-project-cli\"'']"

fun allSucceed :: "shell \<Rightarrow> string list \<Rightarrow> path \<Rightarrow> filesystem \<Rightarrow> bool" where
  "allSucceed sh [] dir fs = True"
| "allSucceed sh (command # commands) dir fs =
     (case sh command dir fs of (ok, fs') \<Rightarrow> ok \<and> allSucceed sh commands dir fs')"

text \<open>
  A file system is tree-shaped when the parent of everything in it is a directory, as
  in every real file system.
\<close>

definition treeShaped :: "filesystem \<Rightarrow> bool" where
  "treeShaped fs = (\<forall>p. p \<noteq> [] \<longrightarrow> fs p \<noteq> None \<longrightarrow> isDirectory fs (butlast p))"

text \<open>
  A sequence of calls with paths relative to a root: the same calls under that root, and
  what they leave in a file system when none of them fails.
\<close>

fun relocate :: "path \<Rightarrow> step \<Rightarrow> step" where
  "relocate root (CreateDir r) = CreateDir (root @ r)"
| "relocate root (WriteFile r c) = WriteFile (root @ r) c"

fun lay :: "path \<Rightarrow> step list \<Rightarrow> filesystem \<Rightarrow> filesystem" where
  "lay root [] fs = fs"
| "lay root (CreateDir r # steps) fs = lay root steps (fs(root @ r \<mapsto> Dir))"
| "lay root (WriteFile r c # steps) fs = lay root steps (fs(root @ r \<mapsto> File c))"

text \<open>
  \<open>staged dirs used steps\<close>: each call of \<open>steps\<close> (relative paths) is at a path not
  used before, \<open>used\<close> being the paths taken so far, and directly in the root or in a
  directory created before, \<open>dirs\<close> being those created so far.
\<close>

fun staged :: "path list \<Rightarrow> path list \<Rightarrow> step list \<Rightarrow> bool" where
  "staged dirs used [] = True"
| "staged dirs used (CreateDir r # steps) =
     (r \<noteq> [] \<and> (butlast r = [] \<or> butlast r \<in> set dirs) \<and> r \<notin> set used \<and>
      staged (r # dirs) (r # used) steps)"
| "staged dirs used (WriteFile r c # steps) =
     (r \<noteq> [] \<and> (butlast r = [] \<or> butlast r \<in> set dirs) \<and> r \<notin> set used \<and>
      staged dirs (r # used) steps)"

section \<open>The parser: what each token does\<close>







declare parseFlags.simps(2) [simp del]


lemma rejectsValue_Suc [simp]: "rejectsValue (a # xs) (Suc k) = rejectsValue xs k"
  by (simp add: rejectsValue_def)


lemma rejectsValue_Nil [simp]: "\<not> rejectsValue [] i"
  by (simp add: rejectsValue_def)
















section \<open>Properties of the parser\<close>







section \<open>Properties of the validator\<close>

text \<open>
  Claim C5. \<open>validateConfig\<close> checks the name pattern, then whether the target directory
  exists, then the template, and throws the error of the first check that fails: a name
  that violates the pattern gives InvalidName whatever the directory and the template
  are, and so on down the order.
\<close>

theorem validateConfig_order:
  "(\<not> nameRegexTest (projectName c) \<longrightarrow> validateConfig c w = Inl InvalidName) \<and>
   (nameRegexTest (projectName c) \<and> existsSync (files w) (pathJoin (cwd w) [projectName c])
      \<longrightarrow> validateConfig c w = Inl (DirectoryExists (projectName c))) \<and>
   (nameRegexTest (projectName c) \<and> \<not> existsSync (files w) (pathJoin (cwd w) [projectName c])
      \<and> template c \<notin> set validTemplates
      \<longrightarrow> validateConfig c w = Inl (UnknownTemplate (template c))) \<and>
   (nameRegexTest (projectName c) \<and> \<not> existsSync (files w) (pathJoin (cwd w) [projectName c])
      \<and> template c \<in> set validTemplates
      \<longrightarrow> validateConfig c w = Inr ())"
  by (simp add: validateConfig_def)

theorem validateConfig_order_witness:
  "\<not> nameRegexTest ''x@y'' \<and> ''nope'' \<notin> set validTemplates \<and>
   validateConfig \<lparr>projectName = ''x@y'', template = ''nope'', gitInit = False, author = ''''\<rparr>
     \<lparr>files = Map.empty, cwd = [''home''], denied = (\<lambda>p. False), printed = []\<rparr>
   = Inl InvalidName"
  using validateConfig_order[of
     "\<lparr>projectName = ''x@y'', template = ''nope'', gitInit = False, author = ''''\<rparr>"
     "\<lparr>files = Map.empty, cwd = [''home''], denied = (\<lambda>p. False), printed = []\<rparr>"]
  by (simp add: nameRegexTest_def nameChar_def validTemplates_def)

section \<open>Properties of the manifests\<close>

lemmas template_defs = generateCalls_def generateBasicTemplate_def generateWebTemplate_def
  generateApiTemplate_def generateCliTemplate_def generateFullstackTemplate_def
  generateReadme_def

text \<open>
  Claim C1, as amended. As stated the claim fails for the fullstack template, whose two
  manifests are named after the project with the suffixes \<open>-frontend\<close> and \<open>-backend\<close>.
  What holds: for every template, each manifest written has version "1.0.0", the
  configured author (the empty string when unset) and license "MIT"; the basic, web, api
  and cli templates write one manifest, named as the project, and the fullstack template
  writes two, named \<open>projectName-frontend\<close> and \<open>projectName-backend\<close>.
\<close>

theorem manifest_fields:
  "map (field ''name'') (manifests (generateCalls root tmpl (name, auth))) =
     (if tmpl = ''fullstack''
      then [Some (JString (name @ ''-frontend'')), Some (JString (name @ ''-backend''))]
      else [Some (JString name)]) \<and>
   (\<forall>m\<in>set (manifests (generateCalls root tmpl (name, auth))).
      field ''version'' m = Some (JString ''1.0.0'') \<and>
      field ''author'' m = Some (JString (case auth of None \<Rightarrow> '''' | Some a \<Rightarrow> a)) \<and>
      field ''license'' m = Some (JString ''MIT''))"
  by (cases auth) (simp_all add: template_defs pathJoin_def orElse_def)

theorem manifest_fields_witness:
  "map (field ''name'')
     (manifests (generateCalls [''demo-app''] ''api'' (''demo-app'', Some ''''))) =
     [Some (JString ''demo-app'')] \<and>
   map (field ''version'')
     (manifests (generateCalls [''demo-app''] ''api'' (''demo-app'', Some ''''))) =
     [Some (JString ''1.0.0'')] \<and>
   map (field ''author'')
     (manifests (generateCalls [''demo-app''] ''api'' (''demo-app'', Some ''''))) =
     [Some (JString '''')] \<and>
   map (field ''license'')
     (manifests (generateCalls [''demo-app''] ''api'' (''demo-app'', Some ''''))) =
     [Some (JString ''MIT'')]"
  using manifest_fields[of "[''demo-app'']" "''api''" "''demo-app''" "Some ''''"]
  by (simp add: template_defs pathJoin_def orElse_def)

text \<open>The claim as stated fails for the fullstack template and the project \<open>demo\<close>.\<close>

theorem manifest_name_fullstack_counterexample:
  "map (field ''name'') (manifests (generateCalls [''demo''] ''fullstack'' (''demo'', None))) =
     [Some (JString ''demo-frontend''), Some (JString ''demo-backend'')] \<and>
   JString ''demo-frontend'' \<noteq> JString ''demo'' \<and>
   JString ''demo-backend'' \<noteq> JString ''demo''"
  by (simp add: template_defs pathJoin_def orElse_def)

text \<open>
  Claim C9. The manifest of the cli template has a \<open>bin\<close> property that is an object
  with one key, the project name, whose value \<open>./src/cli.js\<close> points at \<open>src/cli.js\<close>
  under the project root: the CLI entry file that the same template writes.
\<close>

theorem cli_manifest_bin:
  "map (field ''bin'') (manifests (generateCalls root ''cli'' (name, auth))) =
     [Some (JObject [(name, JString ''./src/cli.js'')])] \<and>
   pointsAt ''./src/cli.js'' = [''src'', ''cli.js''] \<and>
   pathJoin root (pointsAt ''./src/cli.js'') \<in>
     set (writtenFiles (generateCalls root ''cli'' (name, auth)))"
  by (simp add: template_defs pathJoin_def pointsAt_def)

section \<open>Properties of the orchestrator\<close>








text \<open>
  Claim C2 fails on the code. \<open>initGit\<close> changes to the project directory and changes
  back after the three commands; when a command fails, control goes to the \<open>catch\<close>
  block, which does not change back. Below, \<open>git init\<close> fails in the project
  \<open>home/demo\<close>: the working directory is left at \<open>home/demo\<close>, not at \<open>home\<close>;
  when all commands succeed it is \<open>home\<close> again.
\<close>

theorem initGit_failure_keeps_project_cwd:
  "cwd (initGit (\<lambda>command dir fs. (False, fs)) [''home'', ''demo''] ''demo''
     \<lparr>files = [[''home''] \<mapsto> Dir, [''home'', ''demo''] \<mapsto> Dir], cwd = [''home''],
      denied = (\<lambda>p. False), printed = []\<rparr>) = [''home'', ''demo''] \<and>
   cwd (initGit (\<lambda>command dir fs. (True, fs)) [''home'', ''demo''] ''demo''
     \<lparr>files = [[''home''] \<mapsto> Dir, [''home'', ''demo''] \<mapsto> Dir], cwd = [''home''],
      denied = (\<lambda>p. False), printed = []\<rparr>) = [''home'']"
  by (simp add: initGit_def chdir_def isDirectory_def execSync_def gitFailed_def log_def)

lemma initGit_fails:
  "\<not> allSucceed sh gitCommands root (files w) \<Longrightarrow>
   printed (initGit sh root name w) =
     printed w @ [Info ''Initializing Git repository...'',
                  Warning ''Git initialization failed. Make sure Git is installed.'']"
  by (auto simp: initGit_def chdir_def execSync_def gitFailed_def log_def Let_def
      gitCommands_def split: prod.splits bool.splits)

text \<open>
  Claim C7. Take a run that reaches the version-control step: no help flag, arguments that
  parse to a configuration with \<open>gitInit\<close> set and pass validation, and a project
  directory that is created and filled without an error. Then, if one of the three git
  commands fails, the run prints the warning and goes on to the success report, and its
  exit code is 0; and whatever the commands do, the exit code is 0: nothing that happens
  in \<open>initGit\<close> reaches the fatal error path.
\<close>

theorem git_failure_not_fatal:
  fixes w :: world and c :: config and root fs1 fs2
  defines "root \<equiv> pathJoin (cwd w) [projectName c]"
      and "fs1 \<equiv> snd (mkdirSync (denied w) root (files w))"
      and "fs2 \<equiv> snd (generate (denied w) root (template c) (projectName c, Some (author c)) fs1)"
  assumes nohelp: "''--help'' \<notin> set args" "''-h'' \<notin> set args"
      and parsed: "parse toLowerCase args = Inr c"
      and git: "gitInit c"
      and valid: "validateConfig c w = Inr ()"
      and made: "fst (mkdirSync (denied w) root (files w)) = None"
      and generated:
        "fst (generate (denied w) root (template c) (projectName c, Some (author c)) fs1) = None"
      and failure: "\<not> allSucceed sh gitCommands root fs2"
  shows "fst (run toLowerCase sh args w) = 0 \<and>
         printed (snd (run toLowerCase sh args w)) =
           printed w @
           [Info (''Creating '' @ template c @ '' project: '' @ projectName c @ ''...''),
            Info ''Initializing Git repository...'',
            Warning ''Git initialization failed. Make sure Git is installed.'',
            Success ''Project structure created''] @ report c \<and>
         (\<forall>sh'. fst (run toLowerCase sh' args w) = 0)"
proof -
  from parsed have args: "args \<noteq> []"
    by (auto simp: parse_def)
  let ?w0 = "log (Info (''Creating '' @ template c @ '' project: '' @ projectName c @ ''...'')) w"
  have mk: "mkdirSync (denied w) root (files w) = (None, fs1)"
    using made by (simp add: fs1_def prod_eq_iff)
  have gen: "generate (denied w) root (template c) (projectName c, Some (author c)) fs1 = (None, fs2)"
    using generated by (simp add: fs2_def prod_eq_iff)
  have cp: "createProject s c w =
      (None, log (Success ''Project structure created'')
               (initGit s root (projectName c) (?w0\<lparr>files := fs2\<rparr>)))" for s
    using mk gen git by (simp add: createProject_def Let_def root_def log_def)
  have r: "run toLowerCase s args w =
      (0, (snd (createProject s c w))\<lparr>printed := printed (snd (createProject s c w)) @ report c\<rparr>)"
    for s
    using args nohelp parsed valid cp[of s] by (simp add: run_def)
  have "printed (initGit sh root (projectName c) (?w0\<lparr>files := fs2\<rparr>)) =
      printed (?w0\<lparr>files := fs2\<rparr>) @ [Info ''Initializing Git repository...'',
                  Warning ''Git initialization failed. Make sure Git is installed.'']"
    using failure by (intro initGit_fails) simp
  then show ?thesis
    using r cp by (simp add: log_def)
qed

theorem git_failure_not_fatal_witness:
  "fst (run asciiToLowerCase (\<lambda>command dir fs. (False, fs)) [''demo'', ''--git'']
          \<lparr>files = [[''home''] \<mapsto> Dir], cwd = [''home''], denied = (\<lambda>p. False),
           printed = []\<rparr>) = 0 \<and>
   printed (snd (run asciiToLowerCase (\<lambda>command dir fs. (False, fs)) [''demo'', ''--git'']
          \<lparr>files = [[''home''] \<mapsto> Dir], cwd = [''home''], denied = (\<lambda>p. False),
           printed = []\<rparr>)) =
     [Info ''Creating basic project: demo...'',
      Info ''Initializing Git repository...'',
      Warning ''Git initialization failed. Make sure Git is installed.'',
      Success ''Project structure created'',
      Success ''Project \"demo\" created successfully!'',
      Info ''Next steps:'', Info ''  cd demo'', Info ''  Start coding!'']"
proof -
  let ?w = "\<lparr>files = [[''home''] \<mapsto> Dir], cwd = [''home''], denied = (\<lambda>p. False),
             printed = []\<rparr>"
  let ?c = "\<lparr>projectName = ''demo'', template = ''basic'', gitInit = True, author = []\<rparr>"
  let ?sh = "\<lambda>(command :: string) (dir :: path) (fs :: filesystem). (False, fs)"
  have 1: "''--help'' \<notin> set [''demo'', ''--git'']" "''-h'' \<notin> set [''demo'', ''--git'']"
    by simp_all
  have 2: "parse asciiToLowerCase [''demo'', ''--git''] = Inr ?c"
    by (simp add: parse_def startsWithDash_def parseFlags.simps)
  have 3: "gitInit ?c"
    by simp
  have 4: "validateConfig ?c ?w = Inr ()"
    by (simp add: validateConfig_def nameRegexTest_def nameChar_def existsSync_def
        pathJoin_def validTemplates_def)
  have mk: "mkdirSync (denied ?w) (pathJoin (cwd ?w) [projectName ?c]) (files ?w) =
      (None, [[''home''] \<mapsto> Dir, [''home'', ''demo''] \<mapsto> Dir])"
    by (simp add: mkdirSync_def pathJoin_def)
  have 5: "fst (mkdirSync (denied ?w) (pathJoin (cwd ?w) [projectName ?c]) (files ?w)) = None"
    using mk by simp
  have 6: "fst (generate (denied ?w) (pathJoin (cwd ?w) [projectName ?c]) (template ?c)
             (projectName ?c, Some (author ?c))
             (snd (mkdirSync (denied ?w) (pathJoin (cwd ?w) [projectName ?c]) (files ?w)))) = None"
    using mk
    by (simp add: generate_def template_defs pathJoin_def createDir_def writeFile_def
        writeFileSync_def existsSync_def isDirectory_def mkdirSync_def orElse_def)
  have 7: "\<not> allSucceed ?sh gitCommands (pathJoin (cwd ?w) [projectName ?c])
             (snd (generate (denied ?w) (pathJoin (cwd ?w) [projectName ?c]) (template ?c)
             (projectName ?c, Some (author ?c))
             (snd (mkdirSync (denied ?w) (pathJoin (cwd ?w) [projectName ?c]) (files ?w)))))"
    by (simp add: gitCommands_def)
  from git_failure_not_fatal[where sh = ?sh, OF 1 2 3 4 5 6 7] show ?thesis
    by (simp add: report_def)
qed

section \<open>The file system calls\<close>

lemma strict_prefix_iff: "strict_prefix root p \<longleftrightarrow> (\<exists>r. r \<noteq> [] \<and> p = root @ r)"
  by (auto simp: strict_prefix_def prefix_def)

lemma treeShaped_ancestor:
  "treeShaped fs \<Longrightarrow> fs (q @ r) \<noteq> None \<Longrightarrow> r \<noteq> [] \<Longrightarrow> isDirectory fs q"
proof (induction r rule: rev_induct)
  case Nil
  then show ?case by simp
next
  case (snoc x r)
  have parent: "isDirectory fs (q @ r)"
    using snoc.prems(1)[unfolded treeShaped_def, rule_format, of "q @ r @ [x]"] snoc.prems(2)
    by (simp add: butlast_append)
  show ?case
  proof (cases "r = []")
    case True
    with parent show ?thesis by simp
  next
    case False
    with parent have "fs (q @ r) \<noteq> None"
      by (simp add: isDirectory_def)
    with snoc.IH snoc.prems(1) False show ?thesis
      by simp
  qed
qed

lemma treeShaped_update:
  assumes "treeShaped fs" and "p \<noteq> []" and "isDirectory fs (butlast p)"
      and "fs p = Some Dir \<longrightarrow> n = Dir"
  shows "treeShaped (fs(p \<mapsto> n))"
  unfolding treeShaped_def
proof (intro allI impI)
  fix q
  assume q: "q \<noteq> []" "(fs(p \<mapsto> n)) q \<noteq> None"
  show "isDirectory (fs(p \<mapsto> n)) (butlast q)"
  proof (cases "q = p")
    case True
    with assms(2,3,4) show ?thesis
      by (auto simp: isDirectory_def)
  next
    case False
    with q assms(1) have "isDirectory fs (butlast q)"
      by (simp add: treeShaped_def)
    with assms(4) show ?thesis
      by (auto simp: isDirectory_def)
  qed
qed

text \<open>\<open>mkdirSync\<close> walks through the directories that exist without a change.\<close>

lemma mkdirs_skip:
  "\<forall>q. q \<noteq> [] \<longrightarrow> prefix q xs \<longrightarrow> fs (walked @ q) = Some Dir \<Longrightarrow>
   mkdirs deny walked (xs @ ys) fs = mkdirs deny (walked @ xs) ys fs"
proof (induction xs arbitrary: walked)
  case Nil
  then show ?case by simp
next
  case (Cons x xs)
  from Cons.prems have here: "fs (walked @ [x]) = Some Dir"
    by (auto simp: prefix_def)
  have "\<forall>q. q \<noteq> [] \<longrightarrow> prefix q xs \<longrightarrow> fs ((walked @ [x]) @ q) = Some Dir"
    using Cons.prems by (auto simp: prefix_def)
  from Cons.IH[OF this] here show ?case
    by simp
qed

text \<open>
  Whatever \<open>mkdirSync\<close> does below a directory \<open>walked\<close>, it keeps the file system
  tree-shaped and changes nothing but paths strictly inside \<open>walked\<close>.
\<close>

lemma mkdirs_effect:
  "mkdirs deny walked segs fs = (e, fs') \<Longrightarrow> treeShaped fs \<Longrightarrow> isDirectory fs walked \<Longrightarrow>
   treeShaped fs' \<and> (\<forall>p. \<not> strict_prefix walked p \<longrightarrow> fs' p = fs p)"
proof (induction segs arbitrary: walked fs)
  case Nil
  then show ?case by simp
next
  case (Cons seg segs)
  let ?p = "walked @ [seg]"
  have up: "\<not> strict_prefix ?p q" if "\<not> strict_prefix walked q" for q
    using that by (auto simp: strict_prefix_iff)
  show ?case
  proof (cases "fs ?p")
    case None
    show ?thesis
    proof (cases "deny ?p")
      case True
      with None Cons.prems show ?thesis by simp
    next
      case False
      let ?fs1 = "fs(?p \<mapsto> Dir)"
      from None False Cons.prems(1) have run: "mkdirs deny ?p segs ?fs1 = (e, fs')"
        by simp
      have t1: "treeShaped ?fs1"
        using Cons.prems(2,3) by (intro treeShaped_update) simp_all
      have d1: "isDirectory ?fs1 ?p"
        by (simp add: isDirectory_def)
      from Cons.IH[OF run t1 d1] have
        t': "treeShaped fs'" and f': "\<forall>q. \<not> strict_prefix ?p q \<longrightarrow> fs' q = ?fs1 q"
        by simp_all
      have "fs' q = fs q" if "\<not> strict_prefix walked q" for q
      proof -
        from that have "q \<noteq> ?p"
          by (auto simp: strict_prefix_iff)
        with f' up[OF that] show ?thesis by simp
      qed
      with t' show ?thesis by simp
    qed
  next
    case (Some n)
    show ?thesis
    proof (cases n)
      case Dir
      with Some Cons.prems(1) have run: "mkdirs deny ?p segs fs = (e, fs')"
        by simp
      from Some Dir have "isDirectory fs ?p"
        by (simp add: isDirectory_def)
      from Cons.IH[OF run Cons.prems(2) this] up show ?thesis
        by simp
    next
      case (File c)
      with Some Cons.prems show ?thesis by simp
    qed
  qed
qed

lemma ancestors_are_directories:
  assumes "treeShaped fs" and "isDirectory fs root"
  shows "\<forall>q. q \<noteq> [] \<longrightarrow> prefix q root \<longrightarrow> fs q = Some Dir"
proof (intro allI impI)
  fix q assume q: "q \<noteq> []" "prefix q root"
  then obtain r where r: "root = q @ r"
    by (auto simp: prefix_def)
  show "fs q = Some Dir"
  proof (cases "r = []")
    case True
    with r q assms(2) show ?thesis by (simp add: isDirectory_def)
  next
    case False
    from q r assms(2) have "fs (q @ r) \<noteq> None"
      by (auto simp: isDirectory_def)
    from treeShaped_ancestor[OF assms(1) this False] q show ?thesis
      by (simp add: isDirectory_def)
  qed
qed

lemma mkdirSync_below:
  assumes "treeShaped fs" and "isDirectory fs root"
  shows "mkdirSync deny (root @ r) fs = mkdirs deny root r fs"
  using mkdirs_skip[of root fs "[]" deny r] ancestors_are_directories[OF assms]
  by (simp add: mkdirSync_def)

text \<open>
  One call at a path strictly inside a directory \<open>root\<close> of a tree-shaped file system,
  whether it succeeds or fails: the file system stays tree-shaped, \<open>root\<close> stays a
  directory, and nothing changes but paths strictly inside \<open>root\<close>.
\<close>

lemma performStep_effect:
  assumes run: "performStep deny (relocate root s) fs = (e, fs')"
      and rel: "target s \<noteq> []"
      and tree: "treeShaped fs" and root: "isDirectory fs root"
  shows "treeShaped fs' \<and> isDirectory fs' root \<and>
         (\<forall>p. \<not> strict_prefix root p \<longrightarrow> fs' p = fs p)"
proof -
  have keep: "isDirectory fs' root" if "\<forall>p. \<not> strict_prefix root p \<longrightarrow> fs' p = fs p"
    using that root by (simp add: isDirectory_def)
  show ?thesis
  proof (cases s)
    case (CreateDir r)
    show ?thesis
    proof (cases "existsSync fs (root @ r)")
      case True
      with run CreateDir tree root show ?thesis
        by (simp add: createDir_def)
    next
      case False
      with run CreateDir have "mkdirs deny root r fs = (e, fs')"
        by (simp add: createDir_def mkdirSync_below[OF tree root])
      from mkdirs_effect[OF this tree root] keep show ?thesis
        by simp
    qed
  next
    case (WriteFile r c)
    with rel have r: "r \<noteq> []" by simp
    show ?thesis
    proof (cases "fs' = fs")
      case True
      with tree root show ?thesis by simp
    next
      case False
      with run WriteFile have w: "fs' = fs(root @ r \<mapsto> File c)"
        and ok: "isDirectory fs (butlast (root @ r))" "fs (root @ r) \<noteq> Some Dir"
        by (auto simp: writeFile_def writeFileSync_def split: if_splits)
      from r have "strict_prefix root (root @ r)"
        by (simp add: strict_prefix_iff)
      then have frame: "\<forall>p. \<not> strict_prefix root p \<longrightarrow> fs' p = fs p"
        using w by auto
      have "treeShaped fs'"
        unfolding w using tree ok r by (intro treeShaped_update) simp_all
      with frame keep show ?thesis by simp
    qed
  qed
qed

lemma perform_effect:
  "perform deny (map (relocate root) steps) fs = (e, fs') \<Longrightarrow> \<forall>s\<in>set steps. target s \<noteq> [] \<Longrightarrow>
   treeShaped fs \<Longrightarrow> isDirectory fs root \<Longrightarrow>
   treeShaped fs' \<and> isDirectory fs' root \<and> (\<forall>p. \<not> strict_prefix root p \<longrightarrow> fs' p = fs p)"
proof (induction steps arbitrary: fs)
  case Nil
  then show ?case by simp
next
  case (Cons s steps)
  obtain e1 fs1 where one: "performStep deny (relocate root s) fs = (e1, fs1)"
    by (cases "performStep deny (relocate root s) fs") auto
  from Cons.prems(2) have rel: "target s \<noteq> []" and rest: "\<forall>s\<in>set steps. target s \<noteq> []"
    by simp_all
  from performStep_effect[OF one rel Cons.prems(3,4)] have
    1: "treeShaped fs1" "isDirectory fs1 root" "\<forall>p. \<not> strict_prefix root p \<longrightarrow> fs1 p = fs p"
    by simp_all
  show ?case
  proof (cases e1)
    case None
    with one Cons.prems(1) have "perform deny (map (relocate root) steps) fs1 = (e, fs')"
      by simp
    from Cons.IH[OF this rest 1(1,2)] 1(3) show ?thesis
      by simp
  next
    case (Some err)
    with one Cons.prems(1) have "fs' = fs1"
      by simp
    with 1 show ?thesis by simp
  qed
qed

text \<open>The calls that succeed: a new directory or a file in an existing directory.\<close>

lemma createDir_new:
  assumes "treeShaped fs" and "p \<noteq> []" and "isDirectory fs (butlast p)"
      and "fs p = None" and "\<not> deny p"
  shows "createDir deny p fs = (None, fs(p \<mapsto> Dir))"
proof -
  have "mkdirSync deny (butlast p @ [last p]) fs = mkdirs deny (butlast p) [last p] fs"
    using assms(1,3) by (rule mkdirSync_below)
  with assms(2,4,5) show ?thesis
    by (simp add: createDir_def existsSync_def)
qed

lemma writeFile_new:
  assumes "p \<noteq> []" and "isDirectory fs (butlast p)" and "fs p \<noteq> Some Dir" and "\<not> deny p"
  shows "writeFile deny p c fs = (None, fs(p \<mapsto> File c))"
  using assms by (auto simp: writeFile_def writeFileSync_def existsSync_def isDirectory_def)

lemma perform_staged:
  assumes "staged dirs used steps"
      and "treeShaped fs" and "isDirectory fs root"
      and "\<forall>d\<in>set dirs. fs (root @ d) = Some Dir"
      and "\<forall>r. r \<noteq> [] \<longrightarrow> r \<notin> set used \<longrightarrow> fs (root @ r) = None"
      and "\<forall>p. \<not> deny p"
  shows "perform deny (map (relocate root) steps) fs = (None, lay root steps fs)"
  using assms
proof (induction steps arbitrary: fs dirs used)
  case Nil
  then show ?case by simp
next
  case (Cons s steps)
  note tree = Cons.prems(2) and root = Cons.prems(3) and dirs = Cons.prems(4)
    and fresh = Cons.prems(5) and allowed = Cons.prems(6)
  have inside: "isDirectory fs (butlast (root @ r))"
    if "r \<noteq> []" "butlast r = [] \<or> butlast r \<in> set dirs" for r
    using that root dirs by (auto simp: butlast_append isDirectory_def)
  have kept: "isDirectory (fs(root @ r \<mapsto> n)) root" if "r \<noteq> []" for r n
    using that root by (simp add: isDirectory_def)
  show ?case
  proof (cases s)
    case (CreateDir r)
    with Cons.prems(1) have r: "r \<noteq> []" "butlast r = [] \<or> butlast r \<in> set dirs"
      "r \<notin> set used" and rest: "staged (r # dirs) (r # used) steps"
      by simp_all
    let ?fs1 = "fs(root @ r \<mapsto> Dir)"
    from fresh r have none: "fs (root @ r) = None"
      by simp
    have one: "createDir deny (root @ r) fs = (None, ?fs1)"
      using tree inside[OF r(1,2)] none allowed r(1) by (intro createDir_new) simp_all
    have t1: "treeShaped ?fs1"
      using tree inside[OF r(1,2)] r(1) by (intro treeShaped_update) simp_all
    have d1: "\<forall>d\<in>set (r # dirs). ?fs1 (root @ d) = Some Dir"
      using dirs by simp
    have f1: "\<forall>q. q \<noteq> [] \<longrightarrow> q \<notin> set (r # used) \<longrightarrow> ?fs1 (root @ q) = None"
      using fresh by simp
    have "perform deny (map (relocate root) (s # steps)) fs =
        perform deny (map (relocate root) steps) ?fs1"
      using one CreateDir by simp
    also have "\<dots> = (None, lay root steps ?fs1)"
      by (rule Cons.IH[OF rest t1 kept[OF r(1)] d1 f1 allowed])
    finally show ?thesis
      using CreateDir by simp
  next
    case (WriteFile r c)
    with Cons.prems(1) have r: "r \<noteq> []" "butlast r = [] \<or> butlast r \<in> set dirs"
      "r \<notin> set used" and rest: "staged dirs (r # used) steps"
      by simp_all
    let ?fs1 = "fs(root @ r \<mapsto> File c)"
    from fresh r have none: "fs (root @ r) = None"
      by simp
    have one: "writeFile deny (root @ r) c fs = (None, ?fs1)"
      using inside[OF r(1,2)] none allowed r(1) by (intro writeFile_new) simp_all
    have t1: "treeShaped ?fs1"
      using tree inside[OF r(1,2)] r(1) none by (intro treeShaped_update) simp_all
    have "r \<notin> set dirs"
      using dirs none by auto
    then have d1: "\<forall>d\<in>set dirs. ?fs1 (root @ d) = Some Dir"
      using dirs by auto
    have f1: "\<forall>q. q \<noteq> [] \<longrightarrow> q \<notin> set (r # used) \<longrightarrow> ?fs1 (root @ q) = None"
      using fresh by simp
    have "perform deny (map (relocate root) (s # steps)) fs =
        perform deny (map (relocate root) steps) ?fs1"
      using one WriteFile by simp
    also have "\<dots> = (None, lay root steps ?fs1)"
      by (rule Cons.IH[OF rest t1 kept[OF r(1)] d1 f1 allowed])
    finally show ?thesis
      using WriteFile by simp
  qed
qed

lemma staged_distinct:
  "staged dirs used steps \<Longrightarrow>
   distinct (map target steps) \<and> set (map target steps) \<inter> set used = {}"
proof (induction steps arbitrary: dirs used)
  case Nil
  then show ?case by simp
next
  case (Cons s steps)
  then show ?case
    by (cases s) fastforce+
qed

lemma lay_other:
  "p \<notin> (\<lambda>s. root @ target s) ` set steps \<Longrightarrow> lay root steps fs p = fs p"
proof (induction steps arbitrary: fs)
  case Nil
  then show ?case by simp
next
  case (Cons s steps)
  then show ?case
    by (cases s) auto
qed

lemma lay_dir:
  "distinct (map target steps) \<Longrightarrow> CreateDir r \<in> set steps \<Longrightarrow>
   lay root steps fs (root @ r) = Some Dir"
proof (induction steps arbitrary: fs)
  case Nil
  then show ?case by simp
next
  case (Cons s steps)
  show ?case
  proof (cases "s = CreateDir r")
    case True
    with Cons.prems(1) have "root @ r \<notin> (\<lambda>s. root @ target s) ` set steps"
      by auto
    with True show ?thesis
      by (simp add: lay_other)
  next
    case False
    with Cons show ?thesis
      by (cases s) auto
  qed
qed

lemma lay_file:
  "distinct (map target steps) \<Longrightarrow> WriteFile r c \<in> set steps \<Longrightarrow>
   lay root steps fs (root @ r) = Some (File c)"
proof (induction steps arbitrary: fs)
  case Nil
  then show ?case by simp
next
  case (Cons s steps)
  show ?case
  proof (cases "s = WriteFile r c")
    case True
    with Cons.prems(1) have "root @ r \<notin> (\<lambda>s. root @ target s) ` set steps"
      by auto
    with True show ?thesis
      by (simp add: lay_other)
  next
    case False
    with Cons show ?thesis
      by (cases s) auto
  qed
qed

lemma createdDirs_iff: "d \<in> set (createdDirs steps) \<longleftrightarrow> CreateDir d \<in> set steps"
  by (induction steps rule: createdDirs.induct) auto

lemma writtenFiles_iff: "f \<in> set (writtenFiles steps) \<longleftrightarrow> (\<exists>c. WriteFile f c \<in> set steps)"
  by (induction steps rule: writtenFiles.induct) auto

lemma targets_split:
  "target ` set steps = set (createdDirs steps) \<union> set (writtenFiles steps)"
  by (induction steps rule: createdDirs.induct) auto

lemma createdDirs_relocate:
  "createdDirs (map (relocate root) steps) = map ((@) root) (createdDirs steps)"
  by (induction steps rule: createdDirs.induct) auto

lemma writtenFiles_relocate:
  "writtenFiles (map (relocate root) steps) = map ((@) root) (writtenFiles steps)"
  by (induction steps rule: writtenFiles.induct) auto

lemma target_relocate [simp]: "target (relocate root s) = root @ target s"
  by (cases s) simp_all

section \<open>The five layouts\<close>

lemma generateCalls_relocate:
  "generateCalls root tmpl opts = map (relocate root) (generateCalls [] tmpl opts)"
  by (cases opts) (simp add: template_defs pathJoin_def)

lemma generateCalls_staged: "staged [] [] (generateCalls [] tmpl opts)"
  by (cases opts) (simp add: template_defs pathJoin_def)

lemma generateCalls_dirs:
  "tmpl \<in> set validTemplates \<Longrightarrow>
   createdDirs (generateCalls [] tmpl opts) = spec_table_directories tmpl"
  by (cases opts)
     (auto simp: validTemplates_def template_defs pathJoin_def spec_table_directories_def)

lemma generateCalls_files:
  "tmpl \<in> set validTemplates \<Longrightarrow>
   set (writtenFiles (generateCalls [] tmpl opts)) = set (spec_table_files tmpl) \<and>
   length (writtenFiles (generateCalls [] tmpl opts)) = length (spec_table_files tmpl)"
  by (cases opts)
     (auto simp: validTemplates_def template_defs pathJoin_def spec_table_files_def)

lemma staged_nonempty: "staged dirs used steps \<Longrightarrow> \<forall>s\<in>set steps. target s \<noteq> []"
proof (induction steps arbitrary: dirs used)
  case Nil
  then show ?case by simp
next
  case (Cons s steps)
  then show ?case
    by (cases s) fastforce+
qed

lemma distinct_targets:
  "distinct (map target steps) \<Longrightarrow>
   distinct (createdDirs steps) \<and> distinct (writtenFiles steps)"
proof (induction steps rule: createdDirs.induct)
  case 1
  then show ?case by simp
next
  case (2 p steps)
  then show ?case
    using targets_split[of steps] by auto
next
  case (3 p c steps)
  then show ?case
    using targets_split[of steps] by auto
qed

lemma spec_table_directories_distinct:
  "tmpl \<in> set validTemplates \<Longrightarrow> distinct (spec_table_directories tmpl)"
  by (auto simp: validTemplates_def spec_table_directories_def)

section \<open>Properties of the generator\<close>

text \<open>
  Claim C3. For each of the five templates (and every project name and author), the
  \<open>createDir\<close> calls of \<open>generate\<close> are at the directories of the table and its
  \<open>writeFile\<close> calls are at the files of the table, each once. And run in a tree-shaped
  file system where the project root is a directory with nothing in it and no operation
  is refused, as \<open>createProject\<close> runs it, \<open>generate\<close> succeeds and leaves a directory
  at each directory of the table, a file at each file of the table, and every other path
  as it was.
\<close>

theorem generate_matches_table:
  assumes tmpl: "tmpl \<in> set validTemplates"
  shows "createdDirs (generateCalls root tmpl opts) =
           map (pathJoin root) (spec_table_directories tmpl) \<and>
         distinct (spec_table_directories tmpl) \<and>
         set (writtenFiles (generateCalls root tmpl opts)) =
           pathJoin root ` set (spec_table_files tmpl) \<and>
         distinct (writtenFiles (generateCalls root tmpl opts)) \<and>
         length (writtenFiles (generateCalls root tmpl opts)) = length (spec_table_files tmpl) \<and>
         (treeShaped fs \<and> isDirectory fs root \<and> (\<forall>r. r \<noteq> [] \<longrightarrow> fs (root @ r) = None) \<and>
          (\<forall>p. \<not> deny p) \<longrightarrow>
            fst (generate deny root tmpl opts fs) = None \<and>
            (\<forall>d\<in>set (spec_table_directories tmpl).
               snd (generate deny root tmpl opts fs) (pathJoin root d) = Some Dir) \<and>
            (\<forall>f\<in>set (spec_table_files tmpl).
               \<exists>c. snd (generate deny root tmpl opts fs) (pathJoin root f) = Some (File c)) \<and>
            (\<forall>p. p \<notin> pathJoin root `
                     (set (spec_table_directories tmpl) \<union> set (spec_table_files tmpl)) \<longrightarrow>
               snd (generate deny root tmpl opts fs) p = fs p))"
proof -
  let ?rel = "generateCalls [] tmpl opts"
  have join: "pathJoin root = (@) root"
    by (simp add: pathJoin_def fun_eq_iff)
  have calls: "generateCalls root tmpl opts = map (relocate root) ?rel"
    by (rule generateCalls_relocate)
  have st: "staged [] [] ?rel"
    by (rule generateCalls_staged)
  then have dist: "distinct (map target ?rel)"
    using staged_distinct by blast
  have dirs: "createdDirs ?rel = spec_table_directories tmpl"
    using tmpl by (rule generateCalls_dirs)
  have files: "set (writtenFiles ?rel) = set (spec_table_files tmpl)"
    "length (writtenFiles ?rel) = length (spec_table_files tmpl)"
    using generateCalls_files[OF tmpl] by simp_all
  have 1: "createdDirs (generateCalls root tmpl opts) =
      map (pathJoin root) (spec_table_directories tmpl)"
    by (simp add: calls createdDirs_relocate dirs join)
  have 2: "distinct (spec_table_directories tmpl)"
    using tmpl by (rule spec_table_directories_distinct)
  have 3: "set (writtenFiles (generateCalls root tmpl opts)) =
      pathJoin root ` set (spec_table_files tmpl)"
    by (simp add: calls writtenFiles_relocate files join)
  have 4: "distinct (writtenFiles (generateCalls root tmpl opts))"
    using distinct_targets[OF dist]
    by (simp add: calls writtenFiles_relocate distinct_map inj_on_def)
  have 5: "length (writtenFiles (generateCalls root tmpl opts)) = length (spec_table_files tmpl)"
    by (simp add: calls writtenFiles_relocate files)
  have 6: "fst (generate deny root tmpl opts fs) = None \<and>
            (\<forall>d\<in>set (spec_table_directories tmpl).
               snd (generate deny root tmpl opts fs) (pathJoin root d) = Some Dir) \<and>
            (\<forall>f\<in>set (spec_table_files tmpl).
               \<exists>c. snd (generate deny root tmpl opts fs) (pathJoin root f) = Some (File c)) \<and>
            (\<forall>p. p \<notin> pathJoin root `
                     (set (spec_table_directories tmpl) \<union> set (spec_table_files tmpl)) \<longrightarrow>
               snd (generate deny root tmpl opts fs) p = fs p)"
    if env: "treeShaped fs" "isDirectory fs root" "\<forall>r. r \<noteq> [] \<longrightarrow> fs (root @ r) = None"
      "\<forall>p. \<not> deny p"
  proof -
    have g: "generate deny root tmpl opts fs = (None, lay root ?rel fs)"
      unfolding generate_def calls
      using st env by (intro perform_staged[where dirs = "[]" and used = "[]"]) simp_all
    have a: "lay root ?rel fs (pathJoin root d) = Some Dir"
      if "d \<in> set (spec_table_directories tmpl)" for d
      using that lay_dir[OF dist, of d root fs] by (simp add: dirs[symmetric] createdDirs_iff join)
    have b: "\<exists>c. lay root ?rel fs (pathJoin root f) = Some (File c)"
      if "f \<in> set (spec_table_files tmpl)" for f
    proof -
      from that obtain c where "WriteFile f c \<in> set ?rel"
        using files(1) writtenFiles_iff by blast
      from lay_file[OF dist this, of root fs] show ?thesis
        by (auto simp: join)
    qed
    have c: "lay root ?rel fs p = fs p"
      if "p \<notin> pathJoin root `
                (set (spec_table_directories tmpl) \<union> set (spec_table_files tmpl))" for p
    proof -
      have "(\<lambda>s. root @ target s) ` set ?rel = (@) root ` (target ` set ?rel)"
        by auto
      also have "\<dots> = pathJoin root `
          (set (spec_table_directories tmpl) \<union> set (spec_table_files tmpl))"
        by (simp add: targets_split dirs files join)
      finally show ?thesis
        using that by (intro lay_other) simp
    qed
    from a b c show ?thesis
      by (simp add: g)
  qed
  from 1 2 3 4 5 6 show ?thesis
    by blast
qed

text \<open>
  The scenario of the specification: the api template for \<open>demo-app\<close>, in a directory
  \<open>home\<close> where \<open>createProject\<close> has made the project directory.
\<close>

theorem generate_matches_table_witness:
  "createdDirs (generateCalls [''home'', ''demo-app''] ''api'' (''demo-app'', Some '''')) =
     [[''home'', ''demo-app'', ''src''], [''home'', ''demo-app'', ''src'', ''routes''],
      [''home'', ''demo-app'', ''src'', ''controllers''],
      [''home'', ''demo-app'', ''src'', ''models''],
      [''home'', ''demo-app'', ''src'', ''middleware''],
      [''home'', ''demo-app'', ''utils''], [''home'', ''demo-app'', ''config'']] \<and>
   length (writtenFiles
     (generateCalls [''home'', ''demo-app''] ''api'' (''demo-app'', Some ''''))) = 7 \<and>
   fst (generate (\<lambda>p. False) [''home'', ''demo-app''] ''api'' (''demo-app'', Some '''')
          [[''home''] \<mapsto> Dir, [''home'', ''demo-app''] \<mapsto> Dir]) = None \<and>
   snd (generate (\<lambda>p. False) [''home'', ''demo-app''] ''api'' (''demo-app'', Some '''')
          [[''home''] \<mapsto> Dir, [''home'', ''demo-app''] \<mapsto> Dir])
     [''home'', ''demo-app'', ''src'', ''routes''] = Some Dir \<and>
   (\<exists>c. snd (generate (\<lambda>p. False) [''home'', ''demo-app''] ''api'' (''demo-app'', Some '''')
          [[''home''] \<mapsto> Dir, [''home'', ''demo-app''] \<mapsto> Dir])
     [''home'', ''demo-app'', ''src'', ''server.js''] = Some (File c)) \<and>
   snd (generate (\<lambda>p. False) [''home'', ''demo-app''] ''api'' (''demo-app'', Some '''')
          [[''home''] \<mapsto> Dir, [''home'', ''demo-app''] \<mapsto> Dir])
     [''home'', ''demo-app'', ''tests''] = None"
proof -
  let ?fs = "[[''home''] \<mapsto> Dir, [''home'', ''demo-app''] \<mapsto> Dir] :: filesystem"
  have 1: "''api'' \<in> set validTemplates"
    by (simp add: validTemplates_def)
  have 2: "treeShaped ?fs"
    by (auto simp: treeShaped_def isDirectory_def split: if_splits)
  have 3: "isDirectory ?fs [''home'', ''demo-app'']"
    by (simp add: isDirectory_def)
  have 4: "\<forall>r. r \<noteq> [] \<longrightarrow> ?fs ([''home'', ''demo-app''] @ r) = None"
    by simp
  have 5: "\<forall>p. \<not> (\<lambda>p. False) p"
    by simp
  from generate_matches_table[OF 1, of "[''home'', ''demo-app'']" "(''demo-app'', Some '''')"
      ?fs "\<lambda>p. False"] 2 3 4 5
  show ?thesis
    by (simp add: spec_table_directories_def spec_table_files_def pathJoin_def)
qed

text \<open>
  Claim C4. For every template name and every options: no two files written have the
  same path relative to the root; every \<open>createDir\<close> and \<open>writeFile\<close> call is at a
  path strictly inside the root; and when the root is a directory of a tree-shaped file
  system, running \<open>generate\<close> changes nothing at any path that is not strictly inside
  the root, whether it succeeds or fails on the way.
\<close>

theorem generate_stays_inside_root:
  "distinct (map (drop (length root)) (writtenFiles (generateCalls root tmpl opts))) \<and>
   (\<forall>s\<in>set (generateCalls root tmpl opts). strict_prefix root (target s)) \<and>
   (treeShaped fs \<and> isDirectory fs root \<longrightarrow>
      (\<forall>p. \<not> strict_prefix root p \<longrightarrow> snd (generate deny root tmpl opts fs) p = fs p))"
proof -
  let ?rel = "generateCalls [] tmpl opts"
  have calls: "generateCalls root tmpl opts = map (relocate root) ?rel"
    by (rule generateCalls_relocate)
  have st: "staged [] [] ?rel"
    by (rule generateCalls_staged)
  then have dist: "distinct (map target ?rel)"
    using staged_distinct by blast
  from st have ne: "\<forall>s\<in>set ?rel. target s \<noteq> []"
    by (rule staged_nonempty)
  have "map (drop (length root)) (writtenFiles (generateCalls root tmpl opts)) =
      writtenFiles ?rel"
    by (simp add: calls writtenFiles_relocate map_idI)
  then have 1: "distinct (map (drop (length root))
      (writtenFiles (generateCalls root tmpl opts)))"
    using distinct_targets[OF dist] by simp
  have 2: "\<forall>s\<in>set (generateCalls root tmpl opts). strict_prefix root (target s)"
    using ne by (auto simp: calls strict_prefix_iff)
  have 3: "\<forall>p. \<not> strict_prefix root p \<longrightarrow> snd (generate deny root tmpl opts fs) p = fs p"
    if "treeShaped fs" "isDirectory fs root"
  proof -
    obtain e fs' where g: "perform deny (map (relocate root) ?rel) fs = (e, fs')"
      by (cases "perform deny (map (relocate root) ?rel) fs") auto
    from perform_effect[OF g ne that] g show ?thesis
      by (simp add: generate_def calls)
  qed
  from 1 2 3 show ?thesis
    by blast
qed

text \<open>
  The basic template in a project \<open>home/demo\<close> that lies beside a file
  \<open>home/notes.txt\<close>.
\<close>

theorem generate_stays_inside_root_witness:
  "map (drop 2) (writtenFiles (generateCalls [''home'', ''demo''] ''basic'' (''demo'', None))) =
     [[''src'', ''index.js''], [''utils'', ''helpers.js''], [''README.md''], [''.gitignore''],
      [''package.json'']] \<and>
   target (hd (generateCalls [''home'', ''demo''] ''basic'' (''demo'', None))) =
     [''home'', ''demo'', ''src''] \<and>
   snd (generate (\<lambda>p. False) [''home'', ''demo''] ''basic'' (''demo'', None)
          [[''home''] \<mapsto> Dir, [''home'', ''demo''] \<mapsto> Dir,
           [''home'', ''notes.txt''] \<mapsto> File (Text [])])
     [''home'', ''notes.txt''] = Some (File (Text [])) \<and>
   snd (generate (\<lambda>p. False) [''home'', ''demo''] ''basic'' (''demo'', None)
          [[''home''] \<mapsto> Dir, [''home'', ''demo''] \<mapsto> Dir,
           [''home'', ''notes.txt''] \<mapsto> File (Text [])])
     [''home'', ''demo''] = Some Dir"
proof -
  let ?fs = "[[''home''] \<mapsto> Dir, [''home'', ''demo''] \<mapsto> Dir,
              [''home'', ''notes.txt''] \<mapsto> File (Text [])] :: filesystem"
  have 1: "treeShaped ?fs"
    by (auto simp: treeShaped_def isDirectory_def split: if_splits)
  have 2: "isDirectory ?fs [''home'', ''demo'']"
    by (simp add: isDirectory_def)
  have 3: "\<not> strict_prefix [''home'', ''demo''] [''home'', ''notes.txt'']"
    "\<not> strict_prefix [''home'', ''demo''] [''home'', ''demo'']"
    by (simp_all add: strict_prefix_def)
  from generate_stays_inside_root[of "[''home'', ''demo'']" "''basic''" "(''demo'', None)"
      ?fs "\<lambda>p. False"] 1 2 3
  show ?thesis
    by (simp add: template_defs pathJoin_def)
qed

end
